theory Spec2Isabelle
  imports
    Complex_Main
    "HOL-Library.Multiset"
    "HOL-Library.Char_ord"
    "HOL-Library.List_Lexorder"
begin

section \<open>The dataset\<close>

text \<open>
  \<^verbatim>\<open>df = px.data.gapminder()\<close> is a table with the columns country, continent, year,
  lifeExp, pop, gdpPercap, iso_alpha, iso_num (APP.py, line 13). A row is a record with one
  field per column and the frame is the list of its rows, in the dataset's order. The two
  float columns are read as reals: the ordering of finite floats is the ordering of the
  reals they denote, and the dataset holds no missing value.
\<close>

record row =
  country :: string
  continent :: string
  year :: int
  lifeExp :: real
  pop :: int
  gdpPercap :: real
  iso_alpha :: string
  iso_num :: int

type_synonym frame = "row list"

text \<open>The value of one cell of the table: text, an integer or a float.\<close>

datatype cell = SCell string | ICell int | FCell real

text \<open>\<^verbatim>\<open>df.columns\<close>, in the dataset's order.\<close>

definition df_columns :: "string list" where
  "df_columns = [''country'', ''continent'', ''year'', ''lifeExp'', ''pop'', ''gdpPercap'',
                 ''iso_alpha'', ''iso_num'']"

text \<open>The numeric columns and the text columns, with their names and their cells.\<close>

datatype numcol = Year | LifeExp | Pop | GdpPercap | IsoNum

datatype strcol = Country | Continent | IsoAlpha

fun numcol_name :: "numcol \<Rightarrow> string" where
  "numcol_name Year = ''year''"
| "numcol_name LifeExp = ''lifeExp''"
| "numcol_name Pop = ''pop''"
| "numcol_name GdpPercap = ''gdpPercap''"
| "numcol_name IsoNum = ''iso_num''"

fun strcol_name :: "strcol \<Rightarrow> string" where
  "strcol_name Country = ''country''"
| "strcol_name Continent = ''continent''"
| "strcol_name IsoAlpha = ''iso_alpha''"

fun num_cell :: "numcol \<Rightarrow> row \<Rightarrow> cell" where
  "num_cell Year r = ICell (year r)"
| "num_cell LifeExp r = FCell (lifeExp r)"
| "num_cell Pop r = ICell (pop r)"
| "num_cell GdpPercap r = FCell (gdpPercap r)"
| "num_cell IsoNum r = ICell (iso_num r)"

text \<open>The number a numeric cell is compared by when a frame is sorted on its column.\<close>

fun num_val :: "numcol \<Rightarrow> row \<Rightarrow> real" where
  "num_val Year r = of_int (year r)"
| "num_val LifeExp r = lifeExp r"
| "num_val Pop r = of_int (pop r)"
| "num_val GdpPercap r = gdpPercap r"
| "num_val IsoNum r = of_int (iso_num r)"

fun str_val :: "strcol \<Rightarrow> row \<Rightarrow> string" where
  "str_val Country r = country r"
| "str_val Continent r = continent r"
| "str_val IsoAlpha r = iso_alpha r"

text \<open>
  A frame seen by columns: \<^verbatim>\<open>frame[name].values\<close>. A name that is not a column raises
  KeyError.
\<close>

datatype py_error = KeyError string

definition column_values :: "frame \<Rightarrow> string \<Rightarrow> py_error + cell list" where
  "column_values f c =
     (if c = ''country'' then Inr (map (\<lambda>r. SCell (country r)) f)
      else if c = ''continent'' then Inr (map (\<lambda>r. SCell (continent r)) f)
      else if c = ''year'' then Inr (map (\<lambda>r. ICell (year r)) f)
      else if c = ''lifeExp'' then Inr (map (\<lambda>r. FCell (lifeExp r)) f)
      else if c = ''pop'' then Inr (map (\<lambda>r. ICell (pop r)) f)
      else if c = ''gdpPercap'' then Inr (map (\<lambda>r. FCell (gdpPercap r)) f)
      else if c = ''iso_alpha'' then Inr (map (\<lambda>r. SCell (iso_alpha r)) f)
      else if c = ''iso_num'' then Inr (map (\<lambda>r. ICell (iso_num r)) f)
      else Inl (KeyError c))"

section \<open>The table's header names and the derived index\<close>

text \<open>\<^verbatim>\<open>TABLE_COL_RENAME\<close> (lines 16-25), a dictionary in the order it is written.\<close>

definition TABLE_COL_RENAME :: "(string \<times> string) list" where
  "TABLE_COL_RENAME =
     [(''country'', ''Country''),
      (''continent'', ''Continent''),
      (''year'', ''Year''),
      (''lifeExp'', ''Life Expectancy''),
      (''pop'', ''Population''),
      (''gdpPercap'', ''GDP per Capita''),
      (''iso_alpha'', ''ISO Alpha Country Code''),
      (''iso_num'', ''ISO Numeric Code'')]"

text \<open>\<^verbatim>\<open>d.get(k, default)\<close> on a dictionary.\<close>

definition dict_get :: "('k \<times> 'v) list \<Rightarrow> 'k \<Rightarrow> 'v \<Rightarrow> 'v" where
  "dict_get d k dflt = (case map_of d k of None \<Rightarrow> dflt | Some v \<Rightarrow> v)"

text \<open>
  \<^verbatim>\<open>table_df = df.rename(columns=TABLE_COL_RENAME)\<close> (line 26): the same rows under the new
  column names. A column of the renamed frame is the column of \<^verbatim>\<open>df\<close> whose new name is
  the one asked for; a name that no column carries raises KeyError.
\<close>

definition table_df_values :: "frame \<Rightarrow> string \<Rightarrow> py_error + cell list" where
  "table_df_values f h =
     (case filter (\<lambda>c. dict_get TABLE_COL_RENAME c c = h) df_columns of
        [] \<Rightarrow> Inl (KeyError h)
      | c # _ \<Rightarrow> column_values f c)"

text \<open>
  \<^verbatim>\<open>Series.unique()\<close> keeps the first occurrence of each value, in order of appearance;
  \<^verbatim>\<open>sorted\<close> puts the values in ascending order (lines 28-29).
\<close>

definition unique :: "'a list \<Rightarrow> 'a list" where
  "unique xs = rev (remdups (rev xs))"

definition continents :: "frame \<Rightarrow> string list" where
  "continents df = sort (unique (map continent df))"

definition years :: "frame \<Rightarrow> int list" where
  "years df = sort (unique (map year df))"

text \<open>\<^verbatim>\<open>VAR_MAP\<close> (line 33).\<close>

definition VAR_MAP :: "(string \<times> numcol) list" where
  "VAR_MAP = [(''Population'', Pop), (''GDP per Capita'', GdpPercap),
              (''Life Expectancy'', LifeExp)]"

section \<open>Themes\<close>

text \<open>The dictionary \<^verbatim>\<open>theme_settings\<close> returns has four fixed keys (lines 37-40).\<close>

record theme =
  template :: string
  page_bg :: string
  card_bg :: string
  text' :: string

definition theme_settings :: "string \<Rightarrow> theme" where
  "theme_settings th =
     (if th = ''dark''
      then \<lparr>template = ''plotly_dark'', page_bg = ''#111827'', card_bg = ''#1f2937'',
            text' = ''#e5e7eb''\<rparr>
      else \<lparr>template = ''plotly_white'', page_bg = ''#e5ecf6'', card_bg = ''#ffffff'',
            text' = ''#111827''\<rparr>)"

section \<open>Figures\<close>

text \<open>
  A plotly figure is a list of traces (its data series) and a layout. Only the parts the
  builders set are kept: a field they leave alone has the value \<^verbatim>\<open>go.Figure()\<close> starts
  with.
\<close>

datatype orientation = V | H

record annotation =
  ann_text :: string
  xref :: string
  yref :: string
  ann_x :: real
  ann_y :: real
  showarrow :: bool
  font_size :: int

datatype trace =
    Bar string "cell list" "cell list" orientation bool string bool
  | Table "string list" "cell list list"
  | Choropleth "string list" string "cell list" "string list" string

text \<open>
  \<open>Bar name x y orientation text_auto textposition cliponaxis\<close>;
  \<open>Table header cells\<close> with one list of cells per column;
  \<open>Choropleth locations locationmode z hover_country colorscale\<close>.
\<close>

record figure =
  data :: "trace list"
  annotations :: "annotation list"
  layout_template :: "string option"
  paper_bgcolor :: "string option"
  title :: "string option"
  height :: "int option"
  xaxis_visible :: bool
  yaxis_visible :: bool
  margin :: "(string \<times> int) list"
  legend_title :: "string option"
  dragmode :: bool

definition go_Figure :: "trace list \<Rightarrow> figure" where
  "go_Figure ts =
     \<lparr>data = ts, annotations = [], layout_template = None, paper_bgcolor = None,
      title = None, height = None, xaxis_visible = True, yaxis_visible = True,
      margin = [], legend_title = None, dragmode = True\<rparr>"

definition default_msg :: string where
  "default_msg = ''No data available for current filters.''"

text \<open>\<^verbatim>\<open>empty_figure\<close> (lines 42-49): no trace, one annotation in the middle of the paper.\<close>

definition empty_figure :: "string \<Rightarrow> figure" where
  "empty_figure msg =
     (go_Figure [])
       \<lparr>annotations :=
          [\<lparr>ann_text = msg, xref = ''paper'', yref = ''paper'', ann_x = 0.5, ann_y = 0.5,
            showarrow = False, font_size = 16\<rparr>],
        layout_template := Some ''plotly_white'',
        paper_bgcolor := Some ''rgba(0,0,0,0)'',
        xaxis_visible := False, yaxis_visible := False,
        margin := [(''t'', 40), (''l'', 20), (''r'', 20), (''b'', 20)],
        height := Some 420\<rparr>"

section \<open>The library calls of the bar builder\<close>

text \<open>
  \<^verbatim>\<open>DataFrame.head(n)\<close>: the first \<open>n\<close> rows; for a negative \<open>n\<close>, all rows but the last
  \<open>-n\<close>.
\<close>

definition head :: "'a list \<Rightarrow> int \<Rightarrow> 'a list" where
  "head f n = (if 0 \<le> n then take (nat n) f else take (length f - nat (- n)) f)"

text \<open>
  \<^verbatim>\<open>filtered.sort_values(by=y_col, ascending=False)\<close> (line 54) names no sorting algorithm,
  so pandas uses its default, \<^verbatim>\<open>kind='quicksort'\<close>, which its documentation does not list
  among the stable ones (only \<^verbatim>\<open>'mergesort'\<close> and \<^verbatim>\<open>'stable'\<close> are). The routine is
  therefore a parameter \<open>srt\<close> of the model: it takes the key of a row and the rows, and
  all that is known of it is that it returns the same rows with the keys in descending
  order.
\<close>

type_synonym sorter = "(row \<Rightarrow> real) \<Rightarrow> frame \<Rightarrow> frame"

definition sorts_descending :: "sorter \<Rightarrow> bool" where
  "sorts_descending srt \<longleftrightarrow>
     (\<forall>k xs. mset (srt k xs) = mset xs \<and> sorted_wrt (\<lambda>a b. k b \<le> k a) (srt k xs))"

definition sort_values :: "sorter \<Rightarrow> numcol \<Rightarrow> frame \<Rightarrow> frame" where
  "sort_values srt by f = srt (num_val by) f"

text \<open>
  A routine that meets this contract, for running the model: it leaves rows of equal key
  in their order.
\<close>

definition stable_desc_sort :: sorter where
  "stable_desc_sort k xs = sort_key (\<lambda>r. - k r) xs"

text \<open>
  \<^verbatim>\<open>px.bar(data, x=.., y=.., color=x_col, text_auto=True, orientation=.., title=..)\<close>:
  one trace for each value of the colour column, in order of first appearance, holding the
  rows with that value in their order. A vertical bar has the category on \<open>x\<close> and the
  number on \<open>y\<close>, a horizontal one the other way round. The legend is titled by the colour
  column, text labels are placed automatically and clipped at the axes until
  \<^verbatim>\<open>update_traces\<close> changes that.
\<close>

definition px_bar :: "frame \<Rightarrow> strcol \<Rightarrow> numcol \<Rightarrow> orientation \<Rightarrow> string \<Rightarrow> figure" where
  "px_bar d cat_col val_col orient ttl =
     (go_Figure
        (map (\<lambda>c. let g = filter (\<lambda>r. str_val cat_col r = c) d;
                       cats = map (\<lambda>r. SCell (str_val cat_col r)) g;
                       vals = map (num_cell val_col) g
                   in (case orient of
                         V \<Rightarrow> Bar c cats vals V True ''auto'' True
                       | H \<Rightarrow> Bar c vals cats H True ''auto'' True))
             (unique (map (str_val cat_col) d))))
       \<lparr>title := Some ttl, legend_title := Some (strcol_name cat_col)\<rparr>"

text \<open>\<^verbatim>\<open>fig.update_traces(textposition="outside", cliponaxis=False)\<close> on every trace.\<close>

fun update_trace :: "trace \<Rightarrow> trace" where
  "update_trace (Bar n x y orient ta tp cl) = Bar n x y orient ta ''outside'' False"
| "update_trace t = t"

section \<open>The builders\<close>

text \<open>
  The rows \<^verbatim>\<open>make_bar\<close> hands to \<^verbatim>\<open>px.bar\<close>: its local \<^verbatim>\<open>data\<close> (line 54). \<^verbatim>\<open>int(top_n)\<close>
  is the identity on an integer.
\<close>

definition make_bar_data :: "sorter \<Rightarrow> frame \<Rightarrow> numcol \<Rightarrow> int \<Rightarrow> frame" where
  "make_bar_data srt filtered y_col top_n = head (sort_values srt y_col filtered) top_n"

text \<open>\<^verbatim>\<open>make_bar\<close> (lines 51-61).\<close>

definition make_bar ::
  "sorter \<Rightarrow> frame \<Rightarrow> strcol \<Rightarrow> numcol \<Rightarrow> string \<Rightarrow> string \<Rightarrow> string \<Rightarrow> int \<Rightarrow> figure" where
  "make_bar srt filtered x_col y_col ttl tmpl orient top_n =
     (if filtered = [] then empty_figure default_msg
      else
        let d = make_bar_data srt filtered y_col top_n;
            fig = (if orient = ''h'' then px_bar d x_col y_col H ttl
                   else px_bar d x_col y_col V ttl);
            fig = fig\<lparr>layout_template := Some tmpl, paper_bgcolor := Some ''rgba(0,0,0,0)'',
                      height := Some 600, legend_title := Some ''''\<rparr>
        in fig\<lparr>data := map update_trace (data fig)\<rparr>)"

text \<open>\<^verbatim>\<open>str\<close> of an integer, for the titles.\<close>

fun str_nat :: "nat \<Rightarrow> string" where
  "str_nat n =
     (if n < 10 then [char_of (48 + n)]
      else str_nat (n div 10) @ [char_of (48 + n mod 10)])"

declare str_nat.simps [simp del]

definition str_int :: "int \<Rightarrow> string" where
  "str_int i = (if i < 0 then CHR ''-'' # str_nat (nat (- i)) else str_nat (nat i))"

text \<open>
  The three chart builders (lines 72-88). The module's \<^verbatim>\<open>df\<close> is the argument \<open>df\<close>;
  \<^verbatim>\<open>int(year)\<close> is the identity on an integer.
\<close>

definition create_population_chart ::
  "sorter \<Rightarrow> frame \<Rightarrow> string \<Rightarrow> int \<Rightarrow> string \<Rightarrow> string \<Rightarrow> int \<Rightarrow> figure" where
  "create_population_chart srt df cont yr tmpl orient top_n =
     (let filtered = filter (\<lambda>r. continent r = cont \<and> year r = yr) df
      in make_bar srt filtered Country Pop
           (''Population for '' @ cont @ '' in '' @ str_int yr) tmpl orient top_n)"

definition create_gdp_chart ::
  "sorter \<Rightarrow> frame \<Rightarrow> string \<Rightarrow> int \<Rightarrow> string \<Rightarrow> string \<Rightarrow> int \<Rightarrow> figure" where
  "create_gdp_chart srt df cont yr tmpl orient top_n =
     (let filtered = filter (\<lambda>r. continent r = cont \<and> year r = yr) df
      in make_bar srt filtered Country GdpPercap
           (''GDP per Capita for '' @ cont @ '' in '' @ str_int yr) tmpl orient top_n)"

definition create_life_exp_chart ::
  "sorter \<Rightarrow> frame \<Rightarrow> string \<Rightarrow> int \<Rightarrow> string \<Rightarrow> string \<Rightarrow> int \<Rightarrow> figure" where
  "create_life_exp_chart srt df cont yr tmpl orient top_n =
     (let filtered = filter (\<lambda>r. continent r = cont \<and> year r = yr) df
      in make_bar srt filtered Country LifeExp
           (''Life Expectancy for '' @ cont @ '' in '' @ str_int yr) tmpl orient top_n)"

text \<open>\<^verbatim>\<open>create_table\<close> (lines 63-70). A failed column lookup ends the call.\<close>

fun collect :: "('e + 'a) list \<Rightarrow> 'e + 'a list" where
  "collect [] = Inr []"
| "collect (x # xs) =
     (case x of
        Inl e \<Rightarrow> Inl e
      | Inr v \<Rightarrow> (case collect xs of Inl e \<Rightarrow> Inl e | Inr vs \<Rightarrow> Inr (v # vs)))"

definition create_table :: "frame \<Rightarrow> string \<Rightarrow> py_error + figure" where
  "create_table df tmpl =
     (let headers = map (\<lambda>c. dict_get TABLE_COL_RENAME c c) df_columns
      in case collect (map (table_df_values df) headers) of
           Inl e \<Rightarrow> Inl e
         | Inr vals \<Rightarrow>
             Inr ((go_Figure [Table headers vals])
                    \<lparr>layout_template := Some tmpl, paper_bgcolor := Some ''rgba(0,0,0,0)'',
                     margin := [(''t'', 0), (''l'', 0), (''r'', 0), (''b'', 0)],
                     height := Some 700\<rparr>))"

text \<open>
  \<^verbatim>\<open>px.choropleth\<close> with a numeric colour column draws one trace: a location, a colour
  value and the hover's country for each row.
\<close>

definition px_choropleth :: "frame \<Rightarrow> numcol \<Rightarrow> string \<Rightarrow> figure" where
  "px_choropleth d var_col ttl =
     (go_Figure
        [Choropleth (map iso_alpha d) ''ISO-3'' (map (num_cell var_col) d) (map country d)
           ''RdYlBu''])
       \<lparr>title := Some ttl\<rparr>"

text \<open>\<^verbatim>\<open>create_choropleth_map\<close> (lines 90-101).\<close>

definition create_choropleth_map :: "frame \<Rightarrow> string \<Rightarrow> int \<Rightarrow> string \<Rightarrow> figure" where
  "create_choropleth_map df variable_display yr tmpl =
     (let var_col = dict_get VAR_MAP variable_display LifeExp;
          filtered = filter (\<lambda>r. year r = yr) df
      in if filtered = [] then empty_figure default_msg
         else (px_choropleth filtered var_col
                 (variable_display @ '' Choropleth Map ['' @ str_int yr @ '']''))
                \<lparr>layout_template := Some tmpl, dragmode := False,
                 paper_bgcolor := Some ''rgba(0,0,0,0)'', height := Some 600,
                 margin := [(''l'', 0), (''r'', 0)]\<rparr>)"

text \<open>The callbacks (lines 218-248).\<close>

definition update_table :: "frame \<Rightarrow> string \<Rightarrow> py_error + figure" where
  "update_table df th = create_table df (template (theme_settings th))"

definition update_bars ::
  "sorter \<Rightarrow> frame \<Rightarrow> string \<Rightarrow> int \<Rightarrow> string \<Rightarrow> int \<Rightarrow> string
     \<Rightarrow> figure \<times> figure \<times> figure" where
  "update_bars srt df cont yr th topn orient =
     (let t = theme_settings th
      in (create_population_chart srt df cont yr (template t) orient topn,
          create_gdp_chart srt df cont yr (template t) orient topn,
          create_life_exp_chart srt df cont yr (template t) orient topn))"

definition update_map :: "frame \<Rightarrow> string \<Rightarrow> int \<Rightarrow> string \<Rightarrow> figure" where
  "update_map df var_display yr th =
     create_choropleth_map df var_display yr (template (theme_settings th))"

section \<open>Frames as objects\<close>

text \<open>
  A DataFrame is an object, and a call could write to the one it is given. The heap is the
  list of the frame objects there are; an address is a position in it, and a new object is
  put at the end. Each pandas call of the bar builders returns a new object and leaves its
  argument alone: indexing by a boolean mask (lines 73, 79, 85), \<^verbatim>\<open>sort_values\<close>, whose
  \<^verbatim>\<open>inplace\<close> is left at its default \<^verbatim>\<open>False\<close>, and \<^verbatim>\<open>head\<close> (line 54).
\<close>

type_synonym heap = "frame list"

definition alloc :: "heap \<Rightarrow> frame \<Rightarrow> nat \<times> heap" where
  "alloc h f = (length h, h @ [f])"

definition getitem_mask :: "heap \<Rightarrow> nat \<Rightarrow> (row \<Rightarrow> bool) \<Rightarrow> nat \<times> heap" where
  "getitem_mask h a P = alloc h (filter P (h ! a))"

definition sort_values_obj :: "sorter \<Rightarrow> heap \<Rightarrow> nat \<Rightarrow> numcol \<Rightarrow> nat \<times> heap" where
  "sort_values_obj srt h a by = alloc h (sort_values srt by (h ! a))"

definition head_obj :: "heap \<Rightarrow> nat \<Rightarrow> int \<Rightarrow> nat \<times> heap" where
  "head_obj h a n = alloc h (head (h ! a) n)"

text \<open>
  \<^verbatim>\<open>make_bar\<close> and the three chart builders once more, on the heap: \<open>filtered\<close> and \<open>df\<close>
  are addresses, and the heap after the call is returned with the figure.
\<close>

definition make_bar_obj ::
  "sorter \<Rightarrow> heap \<Rightarrow> nat \<Rightarrow> strcol \<Rightarrow> numcol \<Rightarrow> string \<Rightarrow> string \<Rightarrow> string \<Rightarrow> int
     \<Rightarrow> figure \<times> heap" where
  "make_bar_obj srt h filtered x_col y_col ttl tmpl orient top_n =
     (if h ! filtered = [] then (empty_figure default_msg, h)
      else
        case sort_values_obj srt h filtered y_col of (s, h1) \<Rightarrow>
        case head_obj h1 s top_n of (d, h2) \<Rightarrow>
          let fig = (if orient = ''h'' then px_bar (h2 ! d) x_col y_col H ttl
                     else px_bar (h2 ! d) x_col y_col V ttl);
              fig = fig\<lparr>layout_template := Some tmpl,
                        paper_bgcolor := Some ''rgba(0,0,0,0)'',
                        height := Some 600, legend_title := Some ''''\<rparr>
          in (fig\<lparr>data := map update_trace (data fig)\<rparr>, h2))"

definition create_population_chart_obj ::
  "sorter \<Rightarrow> heap \<Rightarrow> nat \<Rightarrow> string \<Rightarrow> int \<Rightarrow> string \<Rightarrow> string \<Rightarrow> int \<Rightarrow> figure \<times> heap" where
  "create_population_chart_obj srt h df cont yr tmpl orient top_n =
     (case getitem_mask h df (\<lambda>r. continent r = cont \<and> year r = yr) of (filtered, h1) \<Rightarrow>
        make_bar_obj srt h1 filtered Country Pop
          (''Population for '' @ cont @ '' in '' @ str_int yr) tmpl orient top_n)"

definition create_gdp_chart_obj ::
  "sorter \<Rightarrow> heap \<Rightarrow> nat \<Rightarrow> string \<Rightarrow> int \<Rightarrow> string \<Rightarrow> string \<Rightarrow> int \<Rightarrow> figure \<times> heap" where
  "create_gdp_chart_obj srt h df cont yr tmpl orient top_n =
     (case getitem_mask h df (\<lambda>r. continent r = cont \<and> year r = yr) of (filtered, h1) \<Rightarrow>
        make_bar_obj srt h1 filtered Country GdpPercap
          (''GDP per Capita for '' @ cont @ '' in '' @ str_int yr) tmpl orient top_n)"

definition create_life_exp_chart_obj ::
  "sorter \<Rightarrow> heap \<Rightarrow> nat \<Rightarrow> string \<Rightarrow> int \<Rightarrow> string \<Rightarrow> string \<Rightarrow> int \<Rightarrow> figure \<times> heap" where
  "create_life_exp_chart_obj srt h df cont yr tmpl orient top_n =
     (case getitem_mask h df (\<lambda>r. continent r = cont \<and> year r = yr) of (filtered, h1) \<Rightarrow>
        make_bar_obj srt h1 filtered Country LifeExp
          (''Life Expectancy for '' @ cont @ '' in '' @ str_int yr) tmpl orient top_n)"

text \<open>
  \<^verbatim>\<open>paint_theme\<close> (lines 212-216): the style of the page and of the six cards, the cards
  of the population, GDP and life-expectancy charts being the fourth to sixth result.
\<close>

type_synonym style = "(string \<times> string) list"

definition paint_theme ::
  "string \<Rightarrow> style \<times> style \<times> style \<times> style \<times> style \<times> style \<times> style" where
  "paint_theme th =
     (let t = theme_settings th;
          page_style = [(''backgroundColor'', page_bg t), (''minHeight'', ''100vh'')];
          card_style = [(''backgroundColor'', card_bg t), (''color'', text' t)]
      in (page_style, card_style, card_style, card_style, card_style, card_style,
          card_style))"

definition chart_card_styles :: "string \<Rightarrow> style list" where
  "chart_card_styles th =
     (case paint_theme th of (page, sidebar, tbl, cpop, cgdp, clife, cmap) \<Rightarrow>
        [cpop, cgdp, clife])"

section \<open>Reading a figure\<close>

text \<open>
  The bars of a figure as pairs of category and value, trace after trace, and its
  categories.
\<close>

fun trace_points :: "trace \<Rightarrow> (cell \<times> cell) list" where
  "trace_points (Bar n x y V ta tp cl) = zip x y"
| "trace_points (Bar n x y H ta tp cl) = zip y x"
| "trace_points t = []"

definition fig_points :: "figure \<Rightarrow> (cell \<times> cell) list" where
  "fig_points fig = concat (map trace_points (data fig))"

definition fig_categories :: "figure \<Rightarrow> cell list" where
  "fig_categories fig = remdups (map fst (fig_points fig))"

fun trace_orientation :: "trace \<Rightarrow> orientation option" where
  "trace_orientation (Bar n x y orient ta tp cl) = Some orient"
| "trace_orientation t = None"

text \<open>
  The bar a row becomes, and the order in which \<^verbatim>\<open>px.bar\<close> lays rows out: grouped by the
  colour column, groups in order of first appearance.
\<close>

definition bar_point :: "strcol \<Rightarrow> numcol \<Rightarrow> row \<Rightarrow> cell \<times> cell" where
  "bar_point x_col y_col r = (SCell (str_val x_col r), num_cell y_col r)"

definition grouped :: "(row \<Rightarrow> string) \<Rightarrow> frame \<Rightarrow> frame" where
  "grouped f d = concat (map (\<lambda>c. filter (\<lambda>r. f r = c) d) (unique (map f d)))"

text \<open>The regions of a map, and a figure with its template taken out.\<close>

fun trace_locations :: "trace \<Rightarrow> string list" where
  "trace_locations (Choropleth locs lm zs hc cs) = locs"
| "trace_locations t = []"

definition fig_locations :: "figure \<Rightarrow> string list" where
  "fig_locations fig = concat (map trace_locations (data fig))"

definition without_template :: "figure \<Rightarrow> figure" where
  "without_template fig = fig\<lparr>layout_template := None\<rparr>"

text \<open>A small dataset for running the model.\<close>

definition mk_row :: "string \<Rightarrow> string \<Rightarrow> int \<Rightarrow> real \<Rightarrow> int \<Rightarrow> real \<Rightarrow> string \<Rightarrow> int \<Rightarrow> row" where
  "mk_row c k y l p g a n =
     \<lparr>country = c, continent = k, year = y, lifeExp = l, pop = p, gdpPercap = g,
      iso_alpha = a, iso_num = n\<rparr>"

definition sample_df :: frame where
  "sample_df =
     [mk_row ''China'' ''Asia'' 1952 44 556 400 ''CHN'' 156,
      mk_row ''India'' ''Asia'' 1952 37 372 546 ''IND'' 356,
      mk_row ''Japan'' ''Asia'' 1952 63 86 3216 ''JPN'' 392,
      mk_row ''Japan'' ''Asia'' 1957 65 91 4317 ''JPN'' 392,
      mk_row ''Nepal'' ''Asia'' 1952 37 9 546 ''NPL'' 524,
      mk_row ''Spain'' ''Europe'' 1952 65 28 3834 ''ESP'' 724]"

definition asia_1952 :: frame where
  "asia_1952 = filter (\<lambda>r. continent r = ''Asia'' \<and> year r = 1952) sample_df"

section \<open>Facts about the library calls\<close>

text \<open>The sample routine meets the contract of the sort.\<close>

lemma stable_desc_sort_contract: "sorts_descending stable_desc_sort"
proof -
  have "sorted_wrt (\<lambda>a b. k b \<le> k a) (sort_key (\<lambda>r. - k r) xs)" for k :: "row \<Rightarrow> real" and xs
    using sorted_sort_key [of "\<lambda>r. - k r" xs] by (simp add: sorted_map)
  then show ?thesis
    by (simp add: sorts_descending_def stable_desc_sort_def)
qed

lemma length_sorter: "sorts_descending srt \<Longrightarrow> length (srt k xs) = length xs"
  unfolding sorts_descending_def by (metis size_mset)

lemma set_sorter: "sorts_descending srt \<Longrightarrow> set (srt k xs) = set xs"
  unfolding sorts_descending_def by (metis set_mset_mset)

text \<open>\<^verbatim>\<open>head\<close> keeps a prefix.\<close>

lemma set_head: "set (head f n) \<subseteq> set f"
  by (auto simp: head_def dest: in_set_takeD)

lemma length_head_le: "length (head f n) \<le> length f"
  by (simp add: head_def)

lemma length_head_top: "0 \<le> n \<Longrightarrow> int (length (head f n)) \<le> n"
  by (simp add: head_def)

text \<open>\<^verbatim>\<open>unique\<close> keeps each value once.\<close>

lemma set_unique: "set (unique xs) = set xs"
  by (simp add: unique_def)

lemma distinct_unique: "distinct (unique xs)"
  by (simp add: unique_def)

lemma length_unique_le: "length (unique xs) \<le> length xs"
  using length_remdups_leq [of "rev xs"] by (simp add: unique_def)

text \<open>Grouping by a column rearranges the rows and drops none.\<close>

lemma mset_groups:
  "distinct cs \<Longrightarrow>
   mset (concat (map (\<lambda>c. filter (\<lambda>r. f r = c) xs) cs)) = filter_mset (\<lambda>r. f r \<in> set cs) (mset xs)"
proof (induction cs)
  case Nil
  then show ?case by simp
next
  case (Cons c cs)
  have "filter_mset (\<lambda>r. f r \<in> set (c # cs)) (mset xs)
        = filter_mset (\<lambda>r. f r = c) (mset xs) + filter_mset (\<lambda>r. f r \<in> set cs) (mset xs)"
    using Cons.prems by (induction xs) auto
  with Cons show ?case by simp
qed

lemma mset_grouped: "mset (grouped f d) = mset d"
proof -
  have "filter_mset (\<lambda>r. f r \<in> set (unique (map f d))) (mset d) = mset d"
    by (rule filter_mset_eq_conv [THEN iffD2]) (auto simp: set_unique)
  then show ?thesis
    using mset_groups [OF distinct_unique, of f d "map f d"] by (simp add: grouped_def)
qed

lemma set_grouped: "set (grouped f d) = set d"
  using mset_grouped [of f d] by (metis set_mset_mset)

lemma length_grouped: "length (grouped f d) = length d"
  using mset_grouped [of f d] by (metis size_mset)

section \<open>The bars of a ranked-bar figure\<close>

text \<open>
  Whatever the orientation, the bars of \<^verbatim>\<open>make_bar\<close>'s figure are the rows of its local
  \<^verbatim>\<open>data\<close>, grouped by category.
\<close>

lemma trace_points_px:
  "trace_points (update_trace
      (let g = filter (\<lambda>r. str_val x r = c) d;
           cats = map (\<lambda>r. SCell (str_val x r)) g;
           vals = map (num_cell y) g
       in (case orient of V \<Rightarrow> Bar c cats vals V True ''auto'' True
                        | H \<Rightarrow> Bar c vals cats H True ''auto'' True)))
   = map (bar_point x y) (filter (\<lambda>r. str_val x r = c) d)"
  by (cases orient) (simp_all add: Let_def zip_map_map bar_point_def zip_same_conv_map)

lemma fig_points_px_bar:
  "fig_points ((px_bar d x y orient ttl)\<lparr>data := map update_trace (data (px_bar d x y orient ttl))\<rparr>)
   = map (bar_point x y) (grouped (str_val x) d)"
  unfolding fig_points_def px_bar_def go_Figure_def grouped_def
  by (simp add: map_concat comp_def trace_points_px del: update_trace.simps)

lemma fig_points_empty_figure: "fig_points (empty_figure msg) = []"
  by (simp add: fig_points_def empty_figure_def go_Figure_def)

lemma fig_points_make_bar:
  "fig_points (make_bar srt filtered x y ttl tmpl orient n) =
     (if filtered = [] then []
      else map (bar_point x y) (grouped (str_val x) (make_bar_data srt filtered y n)))"
proof (cases "filtered = []")
  case True
  then show ?thesis by (simp add: make_bar_def fig_points_empty_figure)
next
  case False
  have "fig_points (make_bar srt filtered x y ttl tmpl orient n)
        = fig_points ((px_bar (make_bar_data srt filtered y n) x y (if orient = ''h'' then H else V) ttl)
            \<lparr>data := map update_trace (data (px_bar (make_bar_data srt filtered y n) x y (if orient = ''h'' then H else V) ttl))\<rparr>)"
    using False by (simp add: make_bar_def Let_def fig_points_def)
  with False show ?thesis by (simp only: fig_points_px_bar if_False)
qed

text \<open>The rows \<^verbatim>\<open>make_bar\<close> keeps.\<close>

lemma set_make_bar_data:
  "sorts_descending srt \<Longrightarrow> set (make_bar_data srt filtered y n) \<subseteq> set filtered"
  using set_head [of "srt (num_val y) filtered" n]
  by (simp add: make_bar_data_def sort_values_def set_sorter)

lemma length_make_bar_data:
  "sorts_descending srt \<Longrightarrow> length (make_bar_data srt filtered y n) \<le> length filtered"
  using length_head_le [of "srt (num_val y) filtered" n]
  by (simp add: make_bar_data_def sort_values_def length_sorter)

lemma length_make_bar_data_top:
  "0 \<le> n \<Longrightarrow> int (length (make_bar_data srt filtered y n)) \<le> n"
  by (simp add: make_bar_data_def length_head_top)

lemma length_fig_categories_make_bar:
  "length (fig_categories (make_bar srt filtered x y ttl tmpl orient n))
     \<le> length (make_bar_data srt filtered y n)"
proof (cases "filtered = []")
  case True
  then show ?thesis by (simp add: fig_categories_def fig_points_make_bar)
next
  case False
  let ?d = "make_bar_data srt filtered y n"
  have "length (fig_categories (make_bar srt filtered x y ttl tmpl orient n))
        = length (remdups (map (\<lambda>r. SCell (str_val x r)) (grouped (str_val x) ?d)))"
    using False by (simp add: fig_categories_def fig_points_make_bar comp_def bar_point_def)
  also have "\<dots> \<le> length (grouped (str_val x) ?d)"
    using length_remdups_leq [of "map (\<lambda>r. SCell (str_val x r)) (grouped (str_val x) ?d)"]
    by simp
  finally show ?thesis by (simp add: length_grouped)
qed

lemma length_data_make_bar:
  "length (data (make_bar srt filtered x y ttl tmpl orient n))
     \<le> length (make_bar_data srt filtered y n)"
proof (cases "filtered = []")
  case True
  then show ?thesis by (simp add: make_bar_def empty_figure_def go_Figure_def)
next
  case False
  then have "length (data (make_bar srt filtered x y ttl tmpl orient n))
        = length (unique (map (str_val x) (make_bar_data srt filtered y n)))"
    by (simp add: make_bar_def Let_def px_bar_def go_Figure_def)
  then show ?thesis
    using length_unique_le [of "map (str_val x) (make_bar_data srt filtered y n)"] by simp
qed

lemma make_bar_shows_filtered:
  assumes "sorts_descending srt"
    and "p \<in> set (fig_points (make_bar srt filtered x y ttl tmpl orient n))"
  shows "\<exists>r \<in> set filtered. p = bar_point x y r"
proof -
  from assms(2) have "p \<in> bar_point x y ` set (make_bar_data srt filtered y n)"
    by (auto simp: fig_points_make_bar set_grouped split: if_splits)
  with set_make_bar_data [OF assms(1), of filtered y n] show ?thesis
    by auto
qed

section \<open>C1: the ranked bars show matching rows, at most \<open>top_n\<close> of them\<close>

text \<open>
  C1. For every continent, year, orientation and template, each of the three chart builders
  returns a figure in which every bar is the country and the metric of a dataset row with
  exactly the given continent and year, and the number of categories (and of traces) is at
  most the number of rows matching the pair, whatever \<open>top_n\<close> is; it is at most \<open>top_n\<close>
  for every \<open>top_n\<close> from \<open>0\<close> on, which covers the values 5 to 25 the slider supplies
  (line 141). The sort is any routine that meets the contract of \<^verbatim>\<open>sort_values\<close>.
\<close>

theorem ranked_bar_rows_and_count:
  assumes "sorts_descending srt"
    and "(fig, m) \<in> {(create_population_chart srt df cont yr tmpl orient top_n, Pop),
                      (create_gdp_chart srt df cont yr tmpl orient top_n, GdpPercap),
                      (create_life_exp_chart srt df cont yr tmpl orient top_n, LifeExp)}"
  shows "(\<forall>p \<in> set (fig_points fig).
            \<exists>r \<in> set df. continent r = cont \<and> year r = yr
                           \<and> p = (SCell (country r), num_cell m r))
         \<and> length (fig_categories fig)
             \<le> length (filter (\<lambda>r. continent r = cont \<and> year r = yr) df)
         \<and> length (data fig) \<le> length (filter (\<lambda>r. continent r = cont \<and> year r = yr) df)
         \<and> (0 \<le> top_n \<longrightarrow>
               int (length (fig_categories fig)) \<le> top_n
               \<and> int (length (data fig)) \<le> top_n)"
proof -
  let ?filtered = "filter (\<lambda>r. continent r = cont \<and> year r = yr) df"
  obtain ttl where fig: "fig = make_bar srt ?filtered Country m ttl tmpl orient top_n"
    using assms(2)
    by (auto simp: create_population_chart_def create_gdp_chart_def create_life_exp_chart_def)
  have rows: "\<exists>r \<in> set df. continent r = cont \<and> year r = yr \<and> p = (SCell (country r), num_cell m r)"
    if "p \<in> set (fig_points fig)" for p
    using make_bar_shows_filtered [OF assms(1)] that unfolding fig
    by (fastforce simp: bar_point_def)
  have c1: "length (fig_categories fig) \<le> length (make_bar_data srt ?filtered m top_n)"
    unfolding fig by (rule length_fig_categories_make_bar)
  have d1: "length (data fig) \<le> length (make_bar_data srt ?filtered m top_n)"
    unfolding fig by (rule length_data_make_bar)
  have top: "int (length (make_bar_data srt ?filtered m top_n)) \<le> top_n" if "0 \<le> top_n"
    by (rule length_make_bar_data_top [OF that])
  have len: "length (make_bar_data srt ?filtered m top_n) \<le> length ?filtered"
    by (rule length_make_bar_data [OF assms(1)])
  from rows c1 d1 top len show ?thesis
    by auto
qed

text \<open>The theorem at the sample dataset, Asia in 1952, five bars asked for, four rows.\<close>

theorem ranked_bar_rows_and_count_witness:
  "sorts_descending stable_desc_sort \<and> (0::int) \<le> 5
   \<and> (SCell ''India'', ICell 372)
        \<in> set (fig_points (create_population_chart stable_desc_sort sample_df ''Asia'' 1952
                  ''plotly_dark'' ''h'' 5))
   \<and> (\<exists>r. r \<in> set sample_df \<and> continent r = ''Asia'' \<and> year r = 1952
            \<and> (SCell ''India'', ICell 372) = (SCell (country r), num_cell Pop r))
   \<and> int (length (fig_categories (create_population_chart stable_desc_sort sample_df ''Asia''
             1952 ''plotly_dark'' ''h'' 5))) \<le> 5
   \<and> length (fig_categories (create_population_chart stable_desc_sort sample_df ''Asia''
             1952 ''plotly_dark'' ''h'' 5))
        \<le> length (filter (\<lambda>r. continent r = ''Asia'' \<and> year r = 1952) sample_df)"
proof -
  let ?fig = "create_population_chart stable_desc_sort sample_df ''Asia'' 1952
                ''plotly_dark'' ''h'' 5"
  have h1: "sorts_descending stable_desc_sort"
    by (rule stable_desc_sort_contract)
  have h2: "(0::int) \<le> 5"
    by simp
  have h3: "(?fig, Pop) \<in>
      {(create_population_chart stable_desc_sort sample_df ''Asia'' 1952 ''plotly_dark'' ''h'' 5, Pop),
       (create_gdp_chart stable_desc_sort sample_df ''Asia'' 1952 ''plotly_dark'' ''h'' 5, GdpPercap),
       (create_life_exp_chart stable_desc_sort sample_df ''Asia'' 1952 ''plotly_dark'' ''h'' 5, LifeExp)}"
    by simp
  have p: "(SCell ''India'', ICell 372) \<in> set (fig_points ?fig)"
    by code_simp
  note t = ranked_bar_rows_and_count [OF h1 h3]
  from t p have "\<exists>r \<in> set sample_df. continent r = ''Asia'' \<and> year r = 1952
            \<and> (SCell ''India'', ICell 372) = (SCell (country r), num_cell Pop r)"
    by blast
  then have e: "\<exists>r. r \<in> set sample_df \<and> continent r = ''Asia'' \<and> year r = 1952
            \<and> (SCell ''India'', ICell 372) = (SCell (country r), num_cell Pop r)"
    by blast
  from t h2 have c1: "int (length (fig_categories ?fig)) \<le> 5"
    by blast
  from t have c2: "length (fig_categories ?fig)
        \<le> length (filter (\<lambda>r. continent r = ''Asia'' \<and> year r = 1952) sample_df)"
    by blast
  from h1 h2 p e c1 c2 show ?thesis
    by blast
qed

section \<open>C3: an empty filter gives the placeholder\<close>

text \<open>
  C3. When no row has the given continent and year, each of the three bar builders returns
  the placeholder, and when no row has the given year the map builder does; the
  placeholder is a figure with no trace and one annotation, the message at the centre of
  the paper. The builders are total: the result is a figure, not an error.
\<close>

theorem empty_filter_gives_placeholder:
  "(filter (\<lambda>r. continent r = cont \<and> year r = yr) df = [] \<longrightarrow>
      create_population_chart srt df cont yr tmpl orient top_n = empty_figure default_msg
      \<and> create_gdp_chart srt df cont yr tmpl orient top_n = empty_figure default_msg
      \<and> create_life_exp_chart srt df cont yr tmpl orient top_n = empty_figure default_msg)
   \<and> (filter (\<lambda>r. year r = yr_map) df = [] \<longrightarrow>
        create_choropleth_map df variable_display yr_map tmpl = empty_figure default_msg)
   \<and> data (empty_figure default_msg) = []
   \<and> annotations (empty_figure default_msg) =
        [\<lparr>ann_text = ''No data available for current filters.'', xref = ''paper'',
          yref = ''paper'', ann_x = 0.5, ann_y = 0.5, showarrow = False, font_size = 16\<rparr>]"
  by (simp add: create_population_chart_def create_gdp_chart_def create_life_exp_chart_def
      create_choropleth_map_def make_bar_def empty_figure_def go_Figure_def default_msg_def)

text \<open>The theorem at the sample dataset: no European row of 1957, no row of 1951.\<close>

theorem empty_filter_gives_placeholder_witness:
  "filter (\<lambda>r. continent r = ''Europe'' \<and> year r = 1957) sample_df = []
   \<and> create_population_chart stable_desc_sort sample_df ''Europe'' 1957 ''plotly_dark'' ''v'' 15
       = empty_figure default_msg
   \<and> create_gdp_chart stable_desc_sort sample_df ''Europe'' 1957 ''plotly_dark'' ''v'' 15
       = empty_figure default_msg
   \<and> create_life_exp_chart stable_desc_sort sample_df ''Europe'' 1957 ''plotly_dark'' ''v'' 15
       = empty_figure default_msg
   \<and> filter (\<lambda>r. year r = 1951) sample_df = []
   \<and> create_choropleth_map sample_df ''Population'' 1951 ''plotly_dark''
       = empty_figure default_msg"
proof -
  have e1: "filter (\<lambda>r. continent r = ''Europe'' \<and> year r = 1957) sample_df = []"
    by (simp add: sample_df_def mk_row_def)
  have e2: "filter (\<lambda>r. year r = 1951) sample_df = []"
    by (simp add: sample_df_def mk_row_def)
  note t1 = empty_filter_gives_placeholder [where cont = "''Europe''" and yr = 1957
      and df = sample_df and srt = stable_desc_sort and tmpl = "''plotly_dark''"
      and orient = "''v''" and top_n = 15 and yr_map = 1951
      and variable_display = "''Population''"]
  note t2 = t1
  from t1 e1 have a: "create_population_chart stable_desc_sort sample_df ''Europe'' 1957 ''plotly_dark'' ''v'' 15
       = empty_figure default_msg
   \<and> create_gdp_chart stable_desc_sort sample_df ''Europe'' 1957 ''plotly_dark'' ''v'' 15
       = empty_figure default_msg
   \<and> create_life_exp_chart stable_desc_sort sample_df ''Europe'' 1957 ''plotly_dark'' ''v'' 15
       = empty_figure default_msg"
    by blast
  from t2 e2 have b: "create_choropleth_map sample_df ''Population'' 1951 ''plotly_dark''
       = empty_figure default_msg"
    by blast
  from e1 e2 a b show ?thesis
    by blast
qed

section \<open>C4: two theme bundles\<close>

text \<open>
  C4. \<^verbatim>\<open>theme_settings\<close> is a function of its argument alone with exactly two results:
  \<^verbatim>\<open>"dark"\<close> gives the dark bundle and every other string, \<^verbatim>\<open>"light"\<close> among them, gives
  the light bundle; the two bundles differ, and no other value is ever returned.
\<close>

theorem theme_settings_two_bundles:
  "theme_settings ''dark'' =
     \<lparr>template = ''plotly_dark'', page_bg = ''#111827'', card_bg = ''#1f2937'',
      text' = ''#e5e7eb''\<rparr>
   \<and> (\<forall>th. th \<noteq> ''dark'' \<longrightarrow>
          theme_settings th =
            \<lparr>template = ''plotly_white'', page_bg = ''#e5ecf6'', card_bg = ''#ffffff'',
             text' = ''#111827''\<rparr>)
   \<and> theme_settings ''dark'' \<noteq> theme_settings ''light''
   \<and> range theme_settings = {theme_settings ''dark'', theme_settings ''light''}"
proof -
  have r: "range theme_settings = {theme_settings ''dark'', theme_settings ''light''}"
  proof
    show "range theme_settings \<subseteq> {theme_settings ''dark'', theme_settings ''light''}"
      by (auto simp: theme_settings_def)
    show "{theme_settings ''dark'', theme_settings ''light''} \<subseteq> range theme_settings"
      by blast
  qed
  show ?thesis
    using r by (simp add: theme_settings_def)
qed

text \<open>The theorem at an unknown theme name.\<close>

theorem theme_settings_two_bundles_witness:
  "''neon'' \<noteq> ''dark''
   \<and> theme_settings ''neon'' =
       \<lparr>template = ''plotly_white'', page_bg = ''#e5ecf6'', card_bg = ''#ffffff'',
        text' = ''#111827''\<rparr>
   \<and> theme_settings ''light'' = theme_settings ''neon''"
proof -
  have ne: "''neon'' \<noteq> ''dark''" and ne': "''light'' \<noteq> ''dark''"
    by simp_all
  from theme_settings_two_bundles
  have all: "\<forall>th. th \<noteq> ''dark'' \<longrightarrow>
          theme_settings th =
            \<lparr>template = ''plotly_white'', page_bg = ''#e5ecf6'', card_bg = ''#ffffff'',
             text' = ''#111827''\<rparr>"
    by blast
  from all ne ne' show ?thesis
    by simp
qed

section \<open>C5: the table shows the whole dataset\<close>

text \<open>The headers, and the columns of the renamed frame.\<close>

lemma headers_eq:
  "map (\<lambda>c. dict_get TABLE_COL_RENAME c c) df_columns =
     [''Country'', ''Continent'', ''Year'', ''Life Expectancy'', ''Population'',
      ''GDP per Capita'', ''ISO Alpha Country Code'', ''ISO Numeric Code'']"
  by (simp add: df_columns_def dict_get_def TABLE_COL_RENAME_def)

lemma table_df_values_eqs:
  "table_df_values df ''Country'' = Inr (map (\<lambda>r. SCell (country r)) df)"
  "table_df_values df ''Continent'' = Inr (map (\<lambda>r. SCell (continent r)) df)"
  "table_df_values df ''Year'' = Inr (map (\<lambda>r. ICell (year r)) df)"
  "table_df_values df ''Life Expectancy'' = Inr (map (\<lambda>r. FCell (lifeExp r)) df)"
  "table_df_values df ''Population'' = Inr (map (\<lambda>r. ICell (pop r)) df)"
  "table_df_values df ''GDP per Capita'' = Inr (map (\<lambda>r. FCell (gdpPercap r)) df)"
  "table_df_values df ''ISO Alpha Country Code'' = Inr (map (\<lambda>r. SCell (iso_alpha r)) df)"
  "table_df_values df ''ISO Numeric Code'' = Inr (map (\<lambda>r. ICell (iso_num r)) df)"
  by (simp_all add: table_df_values_def df_columns_def dict_get_def TABLE_COL_RENAME_def
      column_values_def)

text \<open>
  C5. For every template, \<^verbatim>\<open>create_table\<close> succeeds and returns a figure with one table
  trace: its headers are the renamed column names in the dataset's column order, and its
  cells are the dataset's eight columns in that order, each holding every row of the
  dataset in the dataset's order, so each column is as long as the dataset.
\<close>

theorem create_table_full_dataset:
  "\<exists>fig cols.
      create_table df tmpl = Inr fig
      \<and> data fig =
          [Table [''Country'', ''Continent'', ''Year'', ''Life Expectancy'', ''Population'',
                  ''GDP per Capita'', ''ISO Alpha Country Code'', ''ISO Numeric Code''] cols]
      \<and> cols =
          [map (\<lambda>r. SCell (country r)) df, map (\<lambda>r. SCell (continent r)) df,
           map (\<lambda>r. ICell (year r)) df, map (\<lambda>r. FCell (lifeExp r)) df,
           map (\<lambda>r. ICell (pop r)) df, map (\<lambda>r. FCell (gdpPercap r)) df,
           map (\<lambda>r. SCell (iso_alpha r)) df, map (\<lambda>r. ICell (iso_num r)) df]
      \<and> map length cols = replicate 8 (length df)"
  by (simp add: create_table_def headers_eq table_df_values_eqs go_Figure_def
      numeral_eq_Suc)

section \<open>C6: the map has one region for each row of the year\<close>

text \<open>
  C6. The three labels resolve to their columns and every other label to \<^verbatim>\<open>lifeExp\<close>;
  when some row has the given year, the map's one trace holds, for exactly the rows of that
  year and in their order, the ISO alpha code as location and the resolved column as colour
  value, so the number of regions is the number of rows of that year.
\<close>

theorem choropleth_regions:
  "dict_get VAR_MAP ''Population'' LifeExp = Pop
   \<and> dict_get VAR_MAP ''GDP per Capita'' LifeExp = GdpPercap
   \<and> dict_get VAR_MAP ''Life Expectancy'' LifeExp = LifeExp
   \<and> (variable_display \<notin> {''Population'', ''GDP per Capita'', ''Life Expectancy''} \<longrightarrow>
         dict_get VAR_MAP variable_display LifeExp = LifeExp)
   \<and> (filter (\<lambda>r. year r = yr) df \<noteq> [] \<longrightarrow>
         data (create_choropleth_map df variable_display yr tmpl) =
           [Choropleth (map iso_alpha (filter (\<lambda>r. year r = yr) df)) ''ISO-3''
              (map (num_cell (dict_get VAR_MAP variable_display LifeExp))
                 (filter (\<lambda>r. year r = yr) df))
              (map country (filter (\<lambda>r. year r = yr) df)) ''RdYlBu'']
         \<and> fig_locations (create_choropleth_map df variable_display yr tmpl)
             = map iso_alpha (filter (\<lambda>r. year r = yr) df)
         \<and> length (fig_locations (create_choropleth_map df variable_display yr tmpl))
             = length (filter (\<lambda>r. year r = yr) df))"
  by (simp add: dict_get_def VAR_MAP_def create_choropleth_map_def px_choropleth_def
      go_Figure_def fig_locations_def Let_def)

text \<open>The theorem at the sample dataset, an unknown label and the year 1957.\<close>

theorem choropleth_regions_witness:
  "''Wealth'' \<notin> {''Population'', ''GDP per Capita'', ''Life Expectancy''}
   \<and> dict_get VAR_MAP ''Wealth'' LifeExp = LifeExp
   \<and> filter (\<lambda>r. year r = 1957) sample_df \<noteq> []
   \<and> data (create_choropleth_map sample_df ''Wealth'' 1957 ''plotly_white'') =
           [Choropleth (map iso_alpha (filter (\<lambda>r. year r = 1957) sample_df)) ''ISO-3''
              (map (num_cell (dict_get VAR_MAP ''Wealth'' LifeExp))
                 (filter (\<lambda>r. year r = 1957) sample_df))
              (map country (filter (\<lambda>r. year r = 1957) sample_df)) ''RdYlBu'']
   \<and> length (fig_locations (create_choropleth_map sample_df ''Wealth'' 1957 ''plotly_white''))
        = length (filter (\<lambda>r. year r = 1957) sample_df)"
proof -
  have h1: "''Wealth'' \<notin> {''Population'', ''GDP per Capita'', ''Life Expectancy''}"
    by simp
  have h2: "filter (\<lambda>r. year r = 1957) sample_df \<noteq> []"
    by (simp add: sample_df_def mk_row_def)
  note t = choropleth_regions [where variable_display = "''Wealth''" and yr = 1957
      and df = sample_df and tmpl = "''plotly_white''"]
  from t h1 have a: "dict_get VAR_MAP ''Wealth'' LifeExp = LifeExp"
    by blast
  from t h2 have b: "data (create_choropleth_map sample_df ''Wealth'' 1957 ''plotly_white'') =
           [Choropleth (map iso_alpha (filter (\<lambda>r. year r = 1957) sample_df)) ''ISO-3''
              (map (num_cell (dict_get VAR_MAP ''Wealth'' LifeExp))
                 (filter (\<lambda>r. year r = 1957) sample_df))
              (map country (filter (\<lambda>r. year r = 1957) sample_df)) ''RdYlBu'']"
    and c: "length (fig_locations (create_choropleth_map sample_df ''Wealth'' 1957 ''plotly_white''))
        = length (filter (\<lambda>r. year r = 1957) sample_df)"
    by blast+
  from h1 h2 a b c show ?thesis
    by blast
qed

section \<open>C7: the style of a ranked-bar figure, and the dataset\<close>

text \<open>The template and the background \<^verbatim>\<open>make_bar\<close> sets.\<close>

lemma make_bar_style:
  "paper_bgcolor (make_bar srt filtered x y ttl tmpl orient n) = Some ''rgba(0,0,0,0)''
   \<and> layout_template (make_bar srt filtered x y ttl tmpl orient n)
       = (if filtered = [] then Some ''plotly_white'' else Some tmpl)"
  by (simp add: make_bar_def empty_figure_def go_Figure_def px_bar_def Let_def)

text \<open>
  On the heap, a builder returns the figure of the builder on the frame, and its other
  effect is to add objects: the objects there were are as they were.
\<close>

lemma make_bar_obj_eq:
  "make_bar_obj srt h filtered x_col y_col ttl tmpl orient top_n =
     (make_bar srt (h ! filtered) x_col y_col ttl tmpl orient top_n,
      if h ! filtered = [] then h
      else h @ [sort_values srt y_col (h ! filtered),
                head (sort_values srt y_col (h ! filtered)) top_n])"
  by (simp add: make_bar_obj_def make_bar_def make_bar_data_def sort_values_obj_def
      head_obj_def alloc_def Let_def nth_append)

lemma chart_obj_eqs:
  "create_population_chart_obj srt h df cont yr tmpl orient top_n =
     (create_population_chart srt (h ! df) cont yr tmpl orient top_n,
      snd (create_population_chart_obj srt h df cont yr tmpl orient top_n))"
  "create_gdp_chart_obj srt h df cont yr tmpl orient top_n =
     (create_gdp_chart srt (h ! df) cont yr tmpl orient top_n,
      snd (create_gdp_chart_obj srt h df cont yr tmpl orient top_n))"
  "create_life_exp_chart_obj srt h df cont yr tmpl orient top_n =
     (create_life_exp_chart srt (h ! df) cont yr tmpl orient top_n,
      snd (create_life_exp_chart_obj srt h df cont yr tmpl orient top_n))"
  by (simp_all add: create_population_chart_obj_def create_population_chart_def
      create_gdp_chart_obj_def create_gdp_chart_def
      create_life_exp_chart_obj_def create_life_exp_chart_def
      getitem_mask_def alloc_def make_bar_obj_eq Let_def)

lemma chart_obj_heaps:
  "take (length h) (snd (create_population_chart_obj srt h df cont yr tmpl orient top_n)) = h"
  "take (length h) (snd (create_gdp_chart_obj srt h df cont yr tmpl orient top_n)) = h"
  "take (length h) (snd (create_life_exp_chart_obj srt h df cont yr tmpl orient top_n)) = h"
  by (simp_all add: create_population_chart_obj_def
      create_gdp_chart_obj_def create_life_exp_chart_obj_def
      getitem_mask_def alloc_def make_bar_obj_eq Let_def)

lemma take_nth_same: "take n ys = xs \<Longrightarrow> i < length xs \<Longrightarrow> ys ! i = xs ! i"
  by (metis length_take min_less_iff_conj nth_take)

lemma chart_card_styles_background:
  "map (\<lambda>s. map_of s ''backgroundColor'') (chart_card_styles th)
     = replicate 3 (Some (card_bg (theme_settings th)))"
  by (simp add: chart_card_styles_def paint_theme_def Let_def numeral_3_eq_3)

text \<open>
  C7, as amended. A figure returned by one of the three chart builders under a theme
  carries the theme's template when some row matches the continent and the year, and the
  placeholder's own template \<^verbatim>\<open>plotly_white\<close> when none does. In both cases its paper
  background is the transparent \<^verbatim>\<open>rgba(0,0,0,0)\<close>, the theme's card background being
  put by \<^verbatim>\<open>paint_theme\<close> on the cards that hold the three figures. The call does not
  mutate the dataset: every frame object there was before the call, the dataset among
  them, is the same after it.
\<close>

theorem ranked_bar_style:
  assumes "df < length h"
    and "(res, fig) \<in>
      {(create_population_chart_obj srt h df cont yr (template (theme_settings th)) orient top_n,
        create_population_chart srt (h ! df) cont yr (template (theme_settings th)) orient top_n),
       (create_gdp_chart_obj srt h df cont yr (template (theme_settings th)) orient top_n,
        create_gdp_chart srt (h ! df) cont yr (template (theme_settings th)) orient top_n),
       (create_life_exp_chart_obj srt h df cont yr (template (theme_settings th)) orient top_n,
        create_life_exp_chart srt (h ! df) cont yr (template (theme_settings th)) orient top_n)}"
  shows "fst res = fig
         \<and> take (length h) (snd res) = h
         \<and> snd res ! df = h ! df
         \<and> (filter (\<lambda>r. continent r = cont \<and> year r = yr) (h ! df) \<noteq> [] \<longrightarrow>
               layout_template fig = Some (template (theme_settings th)))
         \<and> (filter (\<lambda>r. continent r = cont \<and> year r = yr) (h ! df) = [] \<longrightarrow>
               layout_template fig = Some ''plotly_white'')
         \<and> paper_bgcolor fig = Some ''rgba(0,0,0,0)''
         \<and> map (\<lambda>s. map_of s ''backgroundColor'') (chart_card_styles th)
             = replicate 3 (Some (card_bg (theme_settings th)))"
proof -
  have res: "fst res = fig"
    using assms(2) chart_obj_eqs [of srt h df cont yr "template (theme_settings th)" orient top_n]
    by (elim insertE emptyE) (simp_all, (metis fst_conv)+)
  have hp: "take (length h) (snd res) = h"
    using assms(2) chart_obj_heaps [of h srt df cont yr "template (theme_settings th)" orient top_n]
    by auto
  have same: "snd res ! df = h ! df"
    by (rule take_nth_same [OF hp assms(1)])
  obtain y ttl where
    "fig = make_bar srt (filter (\<lambda>r. continent r = cont \<and> year r = yr) (h ! df)) Country y ttl
             (template (theme_settings th)) orient top_n"
    using assms(2)
    by (auto simp: create_population_chart_def create_gdp_chart_def create_life_exp_chart_def)
  then have style: "paper_bgcolor fig = Some ''rgba(0,0,0,0)''
      \<and> layout_template fig
          = (if filter (\<lambda>r. continent r = cont \<and> year r = yr) (h ! df) = []
             then Some ''plotly_white'' else Some (template (theme_settings th)))"
    by (simp only: make_bar_style)
  from res hp same style chart_card_styles_background [of th] show ?thesis
    by simp
qed

text \<open>
  The theorem at the sample dataset under the dark theme, with rows (Asia, 1952) and
  without (Europe, 1957).
\<close>

theorem ranked_bar_style_witness:
  "(0::nat) < length [sample_df]
   \<and> filter (\<lambda>r. continent r = ''Asia'' \<and> year r = 1952) ([sample_df] ! 0) \<noteq> []
   \<and> fst (create_gdp_chart_obj stable_desc_sort [sample_df] 0 ''Asia'' 1952
             (template (theme_settings ''dark'')) ''v'' 15)
       = create_gdp_chart stable_desc_sort ([sample_df] ! 0) ''Asia'' 1952
           (template (theme_settings ''dark'')) ''v'' 15
   \<and> layout_template (create_gdp_chart stable_desc_sort ([sample_df] ! 0) ''Asia'' 1952
        (template (theme_settings ''dark'')) ''v'' 15) = Some (template (theme_settings ''dark''))
   \<and> snd (create_gdp_chart_obj stable_desc_sort [sample_df] 0 ''Asia'' 1952
             (template (theme_settings ''dark'')) ''v'' 15) ! 0 = [sample_df] ! 0
   \<and> filter (\<lambda>r. continent r = ''Europe'' \<and> year r = 1957) ([sample_df] ! 0) = []
   \<and> layout_template (create_gdp_chart stable_desc_sort ([sample_df] ! 0) ''Europe'' 1957
        (template (theme_settings ''dark'')) ''v'' 15) = Some ''plotly_white''"
proof -
  let ?t = "template (theme_settings ''dark'')"
  have h0: "(0::nat) < length [sample_df]"
    by simp
  have h1: "filter (\<lambda>r. continent r = ''Asia'' \<and> year r = 1952) ([sample_df] ! 0) \<noteq> []"
    by (simp add: sample_df_def mk_row_def)
  have h2: "filter (\<lambda>r. continent r = ''Europe'' \<and> year r = 1957) ([sample_df] ! 0) = []"
    by (simp add: sample_df_def mk_row_def)
  have m1: "(create_gdp_chart_obj stable_desc_sort [sample_df] 0 ''Asia'' 1952 ?t ''v'' 15,
             create_gdp_chart stable_desc_sort ([sample_df] ! 0) ''Asia'' 1952 ?t ''v'' 15)
      \<in> {(create_population_chart_obj stable_desc_sort [sample_df] 0 ''Asia'' 1952 ?t ''v'' 15,
           create_population_chart stable_desc_sort ([sample_df] ! 0) ''Asia'' 1952 ?t ''v'' 15),
          (create_gdp_chart_obj stable_desc_sort [sample_df] 0 ''Asia'' 1952 ?t ''v'' 15,
           create_gdp_chart stable_desc_sort ([sample_df] ! 0) ''Asia'' 1952 ?t ''v'' 15),
          (create_life_exp_chart_obj stable_desc_sort [sample_df] 0 ''Asia'' 1952 ?t ''v'' 15,
           create_life_exp_chart stable_desc_sort ([sample_df] ! 0) ''Asia'' 1952 ?t ''v'' 15)}"
    by simp
  have m2: "(create_gdp_chart_obj stable_desc_sort [sample_df] 0 ''Europe'' 1957 ?t ''v'' 15,
             create_gdp_chart stable_desc_sort ([sample_df] ! 0) ''Europe'' 1957 ?t ''v'' 15)
      \<in> {(create_population_chart_obj stable_desc_sort [sample_df] 0 ''Europe'' 1957 ?t ''v'' 15,
           create_population_chart stable_desc_sort ([sample_df] ! 0) ''Europe'' 1957 ?t ''v'' 15),
          (create_gdp_chart_obj stable_desc_sort [sample_df] 0 ''Europe'' 1957 ?t ''v'' 15,
           create_gdp_chart stable_desc_sort ([sample_df] ! 0) ''Europe'' 1957 ?t ''v'' 15),
          (create_life_exp_chart_obj stable_desc_sort [sample_df] 0 ''Europe'' 1957 ?t ''v'' 15,
           create_life_exp_chart stable_desc_sort ([sample_df] ! 0) ''Europe'' 1957 ?t ''v'' 15)}"
    by simp
  note t1 = ranked_bar_style [OF h0 m1]
  note t2 = ranked_bar_style [OF h0 m2]
  from t1 have a: "fst (create_gdp_chart_obj stable_desc_sort [sample_df] 0 ''Asia'' 1952 ?t ''v'' 15)
       = create_gdp_chart stable_desc_sort ([sample_df] ! 0) ''Asia'' 1952 ?t ''v'' 15"
    by blast
  from t1 h1 have b: "layout_template (create_gdp_chart stable_desc_sort ([sample_df] ! 0)
        ''Asia'' 1952 ?t ''v'' 15) = Some ?t"
    by blast
  from t1 have c: "snd (create_gdp_chart_obj stable_desc_sort [sample_df] 0 ''Asia'' 1952
        ?t ''v'' 15) ! 0 = [sample_df] ! 0"
    by blast
  from t2 h2 have d: "layout_template (create_gdp_chart stable_desc_sort ([sample_df] ! 0)
        ''Europe'' 1957 ?t ''v'' 15) = Some ''plotly_white''"
    by blast
  from h0 h1 h2 a b c d show ?thesis
    by blast
qed

text \<open>
  C7 as stated fails when the filter is empty: under the dark theme the placeholder has
  the template \<^verbatim>\<open>plotly_white\<close>, not \<^verbatim>\<open>plotly_dark\<close>, and the figure's background is
  the transparent paper, neither the theme's card colour nor its page colour.
\<close>

theorem placeholder_ignores_theme_counterexample:
  "template (theme_settings ''dark'') = ''plotly_dark''
   \<and> layout_template (fst (update_bars stable_desc_sort sample_df ''Europe'' 1957 ''dark'' 15 ''v''))
       = Some ''plotly_white''
   \<and> card_bg (theme_settings ''dark'') = ''#1f2937''
   \<and> page_bg (theme_settings ''dark'') = ''#111827''
   \<and> paper_bgcolor (fst (update_bars stable_desc_sort sample_df ''Europe'' 1957 ''dark'' 15 ''v''))
       = Some ''rgba(0,0,0,0)''"
  by (simp add: theme_settings_def update_bars_def create_population_chart_def make_bar_def
      sample_df_def mk_row_def empty_figure_def go_Figure_def)

section \<open>C8: the theme changes the style only\<close>

text \<open>The template of a builder does not reach the rest of its figure.\<close>

lemma make_bar_without_template:
  "without_template (make_bar srt filtered x y ttl t1 orient n)
     = without_template (make_bar srt filtered x y ttl t2 orient n)"
  by (simp add: make_bar_def without_template_def Let_def)

lemma data_without_template: "data (without_template fig) = data fig"
  by (simp add: without_template_def)

lemma create_table_without_template:
  "map_sum id without_template (create_table df t1)
     = map_sum id without_template (create_table df t2)"
  by (simp add: create_table_def without_template_def Let_def split: sum.splits)

lemma create_choropleth_map_without_template:
  "without_template (create_choropleth_map df v yr t1)
     = without_template (create_choropleth_map df v yr t2)"
  by (simp add: create_choropleth_map_def without_template_def Let_def)

text \<open>
  C8. For fixed inputs, the table, the three bar figures and the map built under the dark
  theme and under the light theme are equal once the template is taken out; in particular
  their data (rows, categories, values, regions) are the same.
\<close>

theorem theme_changes_style_only:
  "map_sum id without_template (update_table df ''dark'')
     = map_sum id without_template (update_table df ''light'')
   \<and> map_prod without_template (map_prod without_template without_template)
        (update_bars srt df cont yr ''dark'' topn orient)
     = map_prod without_template (map_prod without_template without_template)
        (update_bars srt df cont yr ''light'' topn orient)
   \<and> without_template (update_map df var_display yr_map ''dark'')
     = without_template (update_map df var_display yr_map ''light'')
   \<and> map_sum id data (update_table df ''dark'') = map_sum id data (update_table df ''light'')
   \<and> map_prod data (map_prod data data) (update_bars srt df cont yr ''dark'' topn orient)
     = map_prod data (map_prod data data) (update_bars srt df cont yr ''light'' topn orient)
   \<and> data (update_map df var_display yr_map ''dark'')
     = data (update_map df var_display yr_map ''light'')"
proof -
  let ?d = "template (theme_settings ''dark'')" and ?l = "template (theme_settings ''light'')"
  have tbl: "map_sum id without_template (update_table df ''dark'')
     = map_sum id without_template (update_table df ''light'')"
    unfolding update_table_def by (rule create_table_without_template)
  have bars: "map_prod without_template (map_prod without_template without_template)
        (update_bars srt df cont yr ''dark'' topn orient)
     = map_prod without_template (map_prod without_template without_template)
        (update_bars srt df cont yr ''light'' topn orient)"
    unfolding update_bars_def Let_def create_population_chart_def create_gdp_chart_def
      create_life_exp_chart_def map_prod_simp
    using make_bar_without_template [of srt _ Country _ _ ?d orient topn ?l]
    by simp
  have mp: "without_template (update_map df var_display yr_map ''dark'')
     = without_template (update_map df var_display yr_map ''light'')"
    unfolding update_map_def by (rule create_choropleth_map_without_template)
  have "map_sum id data s = map_sum id data (map_sum id without_template s)"
    for s :: "py_error + figure"
    by (cases s) (simp_all add: data_without_template)
  with tbl have tbl_data:
    "map_sum id data (update_table df ''dark'') = map_sum id data (update_table df ''light'')"
    by metis
  have "map_prod data (map_prod data data) p
          = map_prod data (map_prod data data)
              (map_prod without_template (map_prod without_template without_template) p)" for p
    by (cases p) (simp add: data_without_template)
  with bars have bars_data:
    "map_prod data (map_prod data data) (update_bars srt df cont yr ''dark'' topn orient)
     = map_prod data (map_prod data data) (update_bars srt df cont yr ''light'' topn orient)"
    by metis
  from mp have mp_data: "data (update_map df var_display yr_map ''dark'')
     = data (update_map df var_display yr_map ''light'')"
    by (metis data_without_template)
  from tbl bars mp tbl_data bars_data mp_data show ?thesis
    by blast
qed

section \<open>C9: the derived index\<close>

text \<open>
  C9, as amended. For every dataset, empty or not, the index is built without an error: the
  continents and the years are the distinct values of their columns, each once, in
  ascending order.
\<close>

theorem index_sorted_distinct:
  "distinct (continents df) \<and> sorted (continents df) \<and> set (continents df) = continent ` set df
   \<and> distinct (years df) \<and> sorted (years df) \<and> set (years df) = year ` set df"
  by (simp add: continents_def years_def distinct_unique set_unique)

text \<open>
  C9 as stated asks for an error on an empty dataset. Lines 28-29 check nothing: the index
  of the empty dataset is two empty lists.
\<close>

theorem index_of_empty_dataset_counterexample:
  "continents [] = [] \<and> years [] = []"
  by (simp add: continents_def years_def unique_def)

section \<open>C10: an orientation other than \<^verbatim>\<open>"h"\<close> is vertical\<close>

text \<open>
  C10. For every orientation other than the string \<^verbatim>\<open>"h"\<close>, \<^verbatim>\<open>make_bar\<close> returns what it
  returns for \<^verbatim>\<open>"v"\<close>: every bar trace is vertical, and when the filtered frame has rows
  the traces are those of the vertical \<^verbatim>\<open>px.bar\<close> call. \<^verbatim>\<open>make_bar\<close> is total, so no
  orientation makes it fail.
\<close>

theorem unknown_orientation_is_vertical:
  assumes "orient \<noteq> ''h''"
  shows "make_bar srt filtered x_col y_col ttl tmpl orient top_n
           = make_bar srt filtered x_col y_col ttl tmpl ''v'' top_n
         \<and> (\<forall>t \<in> set (data (make_bar srt filtered x_col y_col ttl tmpl orient top_n)).
               trace_orientation t = Some V)
         \<and> (filtered \<noteq> [] \<longrightarrow>
              data (make_bar srt filtered x_col y_col ttl tmpl orient top_n)
                = map update_trace
                    (data (px_bar (make_bar_data srt filtered y_col top_n) x_col y_col V ttl)))"
  using assms
  by (auto simp: make_bar_def Let_def px_bar_def go_Figure_def empty_figure_def)

text \<open>The theorem at the orientation \<^verbatim>\<open>"Horizontal"\<close>.\<close>

theorem unknown_orientation_is_vertical_witness:
  "''Horizontal'' \<noteq> ''h''
   \<and> make_bar stable_desc_sort asia_1952 Country Pop ''Population'' ''plotly_white''
        ''Horizontal'' 2
     = make_bar stable_desc_sort asia_1952 Country Pop ''Population'' ''plotly_white'' ''v'' 2
   \<and> asia_1952 \<noteq> []
   \<and> data (make_bar stable_desc_sort asia_1952 Country Pop ''Population'' ''plotly_white''
        ''Horizontal'' 2)
     = map update_trace
         (data (px_bar (make_bar_data stable_desc_sort asia_1952 Pop 2) Country Pop V
            ''Population''))
   \<and> data (make_bar stable_desc_sort asia_1952 Country Pop ''Population'' ''plotly_white''
        ''Horizontal'' 2)
     = [Bar ''China'' [SCell ''China''] [ICell 556] V True ''outside'' False,
        Bar ''India'' [SCell ''India''] [ICell 372] V True ''outside'' False]"
proof -
  have h1: "''Horizontal'' \<noteq> ''h''"
    by simp
  have h2: "asia_1952 \<noteq> []"
    by (simp add: asia_1952_def sample_df_def mk_row_def)
  note t = unknown_orientation_is_vertical [OF h1, of stable_desc_sort asia_1952 Country Pop
      "''Population''" "''plotly_white''" 2]
  from t have a: "make_bar stable_desc_sort asia_1952 Country Pop ''Population''
        ''plotly_white'' ''Horizontal'' 2
     = make_bar stable_desc_sort asia_1952 Country Pop ''Population'' ''plotly_white'' ''v'' 2"
    by blast
  from t h2 have b: "data (make_bar stable_desc_sort asia_1952 Country Pop ''Population''
        ''plotly_white'' ''Horizontal'' 2)
     = map update_trace
         (data (px_bar (make_bar_data stable_desc_sort asia_1952 Pop 2) Country Pop V
            ''Population''))"
    by blast
  have "map update_trace
         (data (px_bar (make_bar_data stable_desc_sort asia_1952 Pop 2) Country Pop V
            ''Population''))
     = [Bar ''China'' [SCell ''China''] [ICell 556] V True ''outside'' False,
        Bar ''India'' [SCell ''India''] [ICell 372] V True ''outside'' False]"
    by (simp add: make_bar_data_def sort_values_def stable_desc_sort_def head_def
        asia_1952_def sample_df_def mk_row_def px_bar_def go_Figure_def unique_def Let_def)
  with b have c: "data (make_bar stable_desc_sort asia_1952 Country Pop ''Population''
        ''plotly_white'' ''Horizontal'' 2)
     = [Bar ''China'' [SCell ''China''] [ICell 556] V True ''outside'' False,
        Bar ''India'' [SCell ''India''] [ICell 372] V True ''outside'' False]"
    by simp
  from h1 h2 a b c show ?thesis
    by blast
qed

end
